theory Spec2Isabelle
  imports Main "HOL-Library.Word" "HOL-Library.Sublist"
begin

section \<open>JavaScript strings\<close>

text \<open>
  A JavaScript string is a sequence of UTF-16 code units, and \<open>.length\<close> counts code
  units. String literals of the source are written with \<open>lit\<close>; the few code units
  outside ASCII are given by their number.
\<close>

type_synonym jsstring = "16 word list"

definition lit :: "string \<Rightarrow> jsstring" where
  "lit s = map of_char s"

text \<open>Truthiness of a possibly undefined string: \<open>undefined\<close>, \<open>null\<close> and \<open>''\<close> are falsy.\<close>

definition truthy :: "jsstring option \<Rightarrow> bool" where
  "truthy v = (case v of None \<Rightarrow> False | Some s \<Rightarrow> s \<noteq> [])"

text \<open>\<open>v || ''\<close> on a possibly undefined string.\<close>

definition or_empty :: "jsstring option \<Rightarrow> jsstring" where
  "or_empty v = (case v of None \<Rightarrow> [] | Some s \<Rightarrow> s)"


section \<open>Client validation (client.tsx)\<close>

text \<open>
  A browser \<open>File\<close>, as far as the form looks at it. A file field of the form holds
  \<open>undefined\<close>/\<open>null\<close> (\<open>None\<close>) or a \<open>FileList\<close>.
\<close>

record File =
  file_name :: jsstring
  file_type :: jsstring
  file_size :: nat

type_synonym FileList = "File list option"

definition MAX_FILE_SIZE :: nat where
  "MAX_FILE_SIZE = 5 * 1024 * 1024"

definition ACCEPTED_IMAGE_TYPES :: "jsstring list" where
  "ACCEPTED_IMAGE_TYPES =
     [lit ''image/jpeg'', lit ''image/jpg'', lit ''image/png'', lit ''image/webp'']"

datatype field =
  Logo | BusinessName | AssetType | ImageDescription
  | ReferenceImage1 | ReferenceImage2 | CustomText | ColorPalette

type_synonym issue = "field \<times> jsstring"

text \<open>\<open>files?.length == 1\<close>\<close>

definition length_is_one :: "FileList \<Rightarrow> bool" where
  "length_is_one fs = (case fs of None \<Rightarrow> False | Some l \<Rightarrow> length l = 1)"

text \<open>
  \<open>files?.[0]?.size <= MAX_FILE_SIZE\<close>: without a first file the left side is
  \<open>undefined\<close> and the comparison is false.
\<close>

definition first_size_ok :: "FileList \<Rightarrow> bool" where
  "first_size_ok fs =
     (case fs of None \<Rightarrow> False | Some [] \<Rightarrow> False
      | Some (f # _) \<Rightarrow> file_size f \<le> MAX_FILE_SIZE)"

text \<open>\<open>ACCEPTED_IMAGE_TYPES.includes(files?.[0]?.type)\<close>\<close>

definition first_type_ok :: "FileList \<Rightarrow> bool" where
  "first_type_ok fs =
     (case fs of None \<Rightarrow> False | Some [] \<Rightarrow> False
      | Some (f # _) \<Rightarrow> file_type f \<in> set ACCEPTED_IMAGE_TYPES)"

text \<open>\<open>!files || files.length === 0\<close>\<close>

definition no_files :: "FileList \<Rightarrow> bool" where
  "no_files fs = (case fs of None \<Rightarrow> True | Some l \<Rightarrow> length l = 0)"

text \<open>
  One \<open>.refine(check, message)\<close>: a failed check adds an issue and the chain goes on
  (a refinement does not abort the ones after it).
\<close>

definition refine :: "field \<Rightarrow> bool \<Rightarrow> string \<Rightarrow> issue list" where
  "refine fld ok msg = (if ok then [] else [(fld, lit msg)])"

text \<open>\<open>imageFileSchema\<close>, for the two optional reference images.\<close>

definition imageFileSchema :: "field \<Rightarrow> FileList \<Rightarrow> issue list" where
  "imageFileSchema fld fs =
     refine fld (no_files fs \<or> first_size_ok fs) ''Max file size is 5MB.''
     @ refine fld (no_files fs \<or> first_type_ok fs)
         ''.jpg, .jpeg, .png and .webp files are accepted.''"

text \<open>The \<open>logo\<close> entry of \<open>formSchema\<close>.\<close>

definition logoSchema :: "FileList \<Rightarrow> issue list" where
  "logoSchema fs =
     refine Logo (length_is_one fs) ''Logo is required.''
     @ refine Logo (first_size_ok fs) ''Max file size is 5MB.''
     @ refine Logo (first_type_ok fs) ''.jpg, .jpeg, .png and .webp files are accepted.''"

text \<open>
  \<open>z.string().min(k, message)\<close>: \<open>undefined\<close> is not a string (issue \<open>Required\<close>), a
  string of fewer than \<open>k\<close> code units gets the message.
\<close>

definition string_min :: "field \<Rightarrow> nat \<Rightarrow> string \<Rightarrow> jsstring option \<Rightarrow> issue list" where
  "string_min fld k msg v =
     (case v of None \<Rightarrow> [(fld, lit ''Required'')]
      | Some s \<Rightarrow> if length s < k then [(fld, lit msg)] else [])"

text \<open>The values of the form before validation, and \<open>FormValues\<close>, what the schema yields.\<close>

record RawValues =
  raw_logo :: FileList
  raw_businessName :: "jsstring option"
  raw_assetType :: "jsstring option"
  raw_imageDescription :: "jsstring option"
  raw_referenceImage1 :: FileList
  raw_referenceImage2 :: FileList
  raw_customText :: "jsstring option"
  raw_colorPalette :: "jsstring option"

record FormValues =
  v_logo :: FileList
  v_businessName :: jsstring
  v_assetType :: jsstring
  v_imageDescription :: jsstring
  v_referenceImage1 :: FileList
  v_referenceImage2 :: FileList
  v_customText :: "jsstring option"
  v_colorPalette :: "jsstring option"

definition formSchema_issues :: "RawValues \<Rightarrow> issue list" where
  "formSchema_issues r =
     logoSchema (raw_logo r)
     @ string_min BusinessName 2 ''Business name must be at least 2 characters.''
         (raw_businessName r)
     @ string_min AssetType 1 ''Please select an asset type.'' (raw_assetType r)
     @ string_min ImageDescription 1 ''Image description is required.''
         (raw_imageDescription r)
     @ imageFileSchema ReferenceImage1 (raw_referenceImage1 r)
     @ imageFileSchema ReferenceImage2 (raw_referenceImage2 r)"

definition formSchema :: "RawValues \<Rightarrow> issue list + FormValues" where
  "formSchema r =
     (case (raw_businessName r, raw_assetType r, raw_imageDescription r) of
        (Some n, Some a, Some d) \<Rightarrow>
          if formSchema_issues r = [] then
            Inr \<lparr> v_logo = raw_logo r, v_businessName = n, v_assetType = a,
                  v_imageDescription = d,
                  v_referenceImage1 = raw_referenceImage1 r,
                  v_referenceImage2 = raw_referenceImage2 r,
                  v_customText = raw_customText r,
                  v_colorPalette = raw_colorPalette r \<rparr>
          else Inl (formSchema_issues r)
      | _ \<Rightarrow> Inl (formSchema_issues r))"

definition rejected :: "RawValues \<Rightarrow> bool" where
  "rejected r = (case formSchema r of Inl _ \<Rightarrow> True | Inr _ \<Rightarrow> False)"


section \<open>The generation flow (generate-marketing-asset-templates.ts)\<close>

text \<open>
  The source file holds two variants of the flow. The input schema of the second
  (five keys) is written first, as the record the schema of the first extends by
  \<open>imageDescription\<close> and the two reference images.
\<close>

record TemplateInput =
  businessLogoDataUri :: jsstring
  businessName :: jsstring
  assetType :: jsstring
  customText :: "jsstring option"
  colorPalette :: "jsstring option"

record GenerateMarketingAssetTemplatesInput = TemplateInput +
  imageDescription :: jsstring
  referenceImage1DataUri :: "jsstring option"
  referenceImage2DataUri :: "jsstring option"

record GenerateMarketingAssetTemplatesOutput =
  assetDataUri :: jsstring

text \<open>A part of a multimodal prompt: \<open>{text: s}\<close> or \<open>{media: {url: u}}\<close>.\<close>

datatype part = Text jsstring | Media jsstring

datatype jserror = Error jsstring | TypeError | ReadError

definition nl :: jsstring where
  "nl = [0x0A]"

definition dquote :: jsstring where
  "dquote = [0x22]"

definition squote :: jsstring where
  "squote = [0x27]"

text \<open>
  The two sentences on reference images, as the first variant's template literal has
  them.
\<close>

definition reference_instruction :: jsstring where
  "reference_instruction =
     lit ''If reference images are provided, use them for general inspiration only. Do not copy any text or graphics from the reference images.''"

text \<open>
  \<open>promptText\<close> of the first variant, line by line. The source file has, after
  \<open>user\<close>, the three characters U+00E2, U+20AC, U+2122.
\<close>

definition promptText :: "GenerateMarketingAssetTemplatesInput \<Rightarrow> jsstring" where
  "promptText input =
     lit ''You are a professional graphic designer AI assistant that creates high-quality, modern, and creative marketing assets for businesses.''
     @ nl @ nl
     @ lit ''Generate a '' @ assetType input
     @ lit '' based on the following description: ''
     @ dquote @ imageDescription input @ dquote @ lit ''.''
     @ nl @ nl
     @ lit ''Incorporate the user'' @ [0xE2, 0x20AC, 0x2122]
     @ lit ''s provided business logo and name in a clean, visually appealing way. Use the custom text and color palette if provided.''
     @ nl @ nl
     @ reference_instruction
     @ nl @ nl
     @ lit ''Business Name: '' @ businessName input @ nl
     @ lit ''Custom Text: '' @ or_empty (customText input) @ nl
     @ lit ''Color Palette: '' @ or_empty (colorPalette input) @ nl"

text \<open>
  \<open>if (uri) { prompt.push({text: label}); prompt.push({media: {url: uri}}); }\<close>:
  the parts pushed for one reference image.
\<close>

definition push_reference :: "string \<Rightarrow> jsstring option \<Rightarrow> part list" where
  "push_reference label uri =
     (case uri of None \<Rightarrow> []
      | Some u \<Rightarrow> if u = [] then [] else [Text (lit label), Media u])"

definition flow_prompt :: "GenerateMarketingAssetTemplatesInput \<Rightarrow> part list" where
  "flow_prompt input =
     [Text (promptText input), Media (businessLogoDataUri input)]
     @ push_reference ''Reference Image 1:'' (referenceImage1DataUri input)
     @ push_reference ''Reference Image 2:'' (referenceImage2DataUri input)"

text \<open>
  The image service \<open>ai.generate\<close> is outside the repository: a parameter that, given
  the prompt, throws (\<open>Inl\<close>), answers without media (\<open>Inr None\<close>) or answers with
  media of some url.
\<close>

type_synonym generate = "part list \<Rightarrow> jserror + jsstring option"

definition generateMarketingAssetTemplatesFlow ::
  "generate \<Rightarrow> GenerateMarketingAssetTemplatesInput
     \<Rightarrow> jserror + GenerateMarketingAssetTemplatesOutput" where
  "generateMarketingAssetTemplatesFlow gen input =
     (case gen (flow_prompt input) of
        Inl e \<Rightarrow> Inl e
      | Inr None \<Rightarrow> Inl (Error (lit ''Image generation failed.''))
      | Inr (Some url) \<Rightarrow> Inr \<lparr> assetDataUri = url \<rparr>)"

definition generateMarketingAssetTemplates ::
  "generate \<Rightarrow> GenerateMarketingAssetTemplatesInput
     \<Rightarrow> jserror + GenerateMarketingAssetTemplatesOutput" where
  "generateMarketingAssetTemplates gen input = generateMarketingAssetTemplatesFlow gen input"

text \<open>Reading a prompt: its images in order, its text, and its shape.\<close>

fun media_urls :: "part list \<Rightarrow> jsstring list" where
  "media_urls [] = []"
| "media_urls (Text _ # ps) = media_urls ps"
| "media_urls (Media u # ps) = u # media_urls ps"

fun prompt_texts :: "part list \<Rightarrow> jsstring list" where
  "prompt_texts [] = []"
| "prompt_texts (Text s # ps) = s # prompt_texts ps"
| "prompt_texts (Media _ # ps) = prompt_texts ps"

text \<open>A prompt that is a sequence of pairs, a text part and then an image part.\<close>

fun text_image_pairs :: "part list \<Rightarrow> bool" where
  "text_image_pairs [] = True"
| "text_image_pairs (Text _ # Media _ # ps) = text_image_pairs ps"
| "text_image_pairs _ = False"

text \<open>The reference image a request provides: a non-empty string.\<close>

definition provided :: "jsstring option \<Rightarrow> jsstring list" where
  "provided uri = (case uri of None \<Rightarrow> [] | Some u \<Rightarrow> if u = [] then [] else [u])"


subsection \<open>The second variant: a prompt template\<close>

text \<open>
  The second variant declares its prompt as a Handlebars template
  (\<open>generationPrompt\<close>) and renders it on a data object. An object is the list of
  its properties; the values that occur are strings and the request itself.
\<close>

datatype jsvalue = Str jsstring | Request TemplateInput

type_synonym jsobject = "(string \<times> jsvalue) list"

definition property :: "jsobject \<Rightarrow> string \<Rightarrow> jsvalue option" where
  "property obj k = map_of obj k"

text \<open>
  The template is embedded as the list of its nodes: literal text, \<open>{{{key}}}\<close> (the
  value unescaped, nothing when the data has no such property), \<open>{{media url=key}}\<close>
  (an image part, whose url is the value put into a template string, so \<open>undefined\<close>
  when there is no such property) and \<open>{{#if key}}...{{/if}}\<close> (the body when the
  value is truthy).
\<close>

datatype inline = Lit jsstring | Raw string | MediaUrl string

datatype node = Plain inline | If string "inline list"

definition unescaped :: "jsvalue option \<Rightarrow> jsstring" where
  "unescaped v =
     (case v of None \<Rightarrow> [] | Some (Str s) \<Rightarrow> s
      | Some (Request _) \<Rightarrow> lit ''[object Object]'')"

definition interpolated :: "jsvalue option \<Rightarrow> jsstring" where
  "interpolated v =
     (case v of None \<Rightarrow> lit ''undefined'' | Some (Str s) \<Rightarrow> s
      | Some (Request _) \<Rightarrow> lit ''[object Object]'')"

definition truthy_value :: "jsvalue option \<Rightarrow> bool" where
  "truthy_value v =
     (case v of None \<Rightarrow> False | Some (Str s) \<Rightarrow> s \<noteq> [] | Some (Request _) \<Rightarrow> True)"

definition render_inline :: "jsobject \<Rightarrow> inline \<Rightarrow> part" where
  "render_inline obj n =
     (case n of
        Lit s \<Rightarrow> Text s
      | Raw k \<Rightarrow> Text (unescaped (property obj k))
      | MediaUrl k \<Rightarrow> Media (interpolated (property obj k)))"

definition render_node :: "jsobject \<Rightarrow> node \<Rightarrow> part list" where
  "render_node obj n =
     (case n of
        Plain i \<Rightarrow> [render_inline obj i]
      | If k body \<Rightarrow>
          if truthy_value (property obj k) then map (render_inline obj) body else [])"

text \<open>Adjacent text is one part; an image stands between the text around it.\<close>

fun join_text :: "part list \<Rightarrow> part list" where
  "join_text [] = []"
| "join_text (Media u # ps) = Media u # join_text ps"
| "join_text (Text s # ps) =
     (case join_text ps of
        Text t # qs \<Rightarrow> Text (s @ t) # qs
      | qs \<Rightarrow> Text s # qs)"

definition render_template :: "node list \<Rightarrow> jsobject \<Rightarrow> part list" where
  "render_template nodes obj = join_text (concat (map (render_node obj) nodes))"

definition generationPrompt_template :: "node list" where
  "generationPrompt_template =
     [Plain (Lit (lit ''You are a professional graphic designer AI assistant that creates high-quality, modern, and creative marketing assets for businesses.'' @ nl @ nl)),
      Plain (Lit (lit ''Generate a '')), Plain (Raw ''assetType''),
      Plain (Lit (lit '' that incorporates the user'' @ [0x2019]
        @ lit ''s provided business logo and name in a clean, visually appealing way. Use the custom text and color palette if provided.''
        @ nl @ nl)),
      Plain (Lit (lit ''Business Name: '')), Plain (Raw ''businessName''), Plain (Lit nl),
      Plain (Lit (lit ''Business Logo: '')), Plain (MediaUrl ''businessLogoDataUri''),
      Plain (Lit nl),
      Plain (Lit (lit ''Custom Text: '')),
      If ''customText'' [Lit squote, Raw ''customText'', Lit squote], Plain (Lit nl),
      Plain (Lit (lit ''Color Palette: '')),
      If ''colorPalette'' [Lit squote, Raw ''colorPalette'', Lit squote], Plain (Lit nl)]"

text \<open>
  A request as an object: the three required keys, and the optional ones that are
  defined.
\<close>

definition request_object :: "TemplateInput \<Rightarrow> jsobject" where
  "request_object input =
     [(''businessLogoDataUri'', Str (businessLogoDataUri input)),
      (''businessName'', Str (businessName input)),
      (''assetType'', Str (assetType input))]
     @ (case customText input of None \<Rightarrow> [] | Some s \<Rightarrow> [(''customText'', Str s)])
     @ (case colorPalette input of None \<Rightarrow> [] | Some s \<Rightarrow> [(''colorPalette'', Str s)])"

text \<open>
  The template rendered with a request as its data, the data its input schema
  describes.
\<close>

definition generationPrompt_render :: "TemplateInput \<Rightarrow> part list" where
  "generationPrompt_render input =
     render_template generationPrompt_template (request_object input)"

text \<open>
  The flow of the second variant does not render the template on the request: it
  calls \<open>generationPrompt.render({input})\<close>, and the data is an object whose one
  property, \<open>input\<close>, holds the request. What the call returns is handed to the
  service as the prompt.
\<close>

definition generationPrompt_render_call :: "TemplateInput \<Rightarrow> part list" where
  "generationPrompt_render_call input =
     render_template generationPrompt_template [(''input'', Request input)]"

definition generateMarketingAssetTemplatesFlow2 ::
  "generate \<Rightarrow> TemplateInput \<Rightarrow> jserror + GenerateMarketingAssetTemplatesOutput" where
  "generateMarketingAssetTemplatesFlow2 gen input =
     (case gen (generationPrompt_render_call input) of
        Inl e \<Rightarrow> Inl e
      | Inr None \<Rightarrow> Inl (Error (lit ''Image generation failed.''))
      | Inr (Some url) \<Rightarrow> Inr \<lparr> assetDataUri = url \<rparr>)"

text \<open>What an \<open>{{#if key}}'{{{key}}}'{{/if}}\<close> block renders to.\<close>

definition quoted :: "jsstring option \<Rightarrow> jsstring" where
  "quoted v = (if truthy v then squote @ or_empty v @ squote else [])"

text \<open>
  A request of the first variant's shape handed to the second: the object schema
  keeps its own five keys and drops the others.
\<close>

definition strip_unknown :: "GenerateMarketingAssetTemplatesInput \<Rightarrow> TemplateInput" where
  "strip_unknown input = TemplateInput.truncate input"


section \<open>Submitting the form (client.tsx)\<close>

datatype toast_variant = Default | Destructive

record toast =
  variant :: toast_variant
  title :: jsstring
  description :: jsstring

text \<open>
  The component's state, with what it does to the outside made part of it: the toasts
  shown so far and the requests sent to the server action so far.
\<close>

record ui_state =
  generatedImage :: "jsstring option"
  isLoading :: bool
  downloadFormat :: jsstring
  errors :: "issue list"
  toasts :: "toast list"
  requests :: "GenerateMarketingAssetTemplatesInput list"

text \<open>
  \<open>fileToDataUri\<close>: the promise resolves with what the \<open>FileReader\<close> read, or rejects
  when the reader fails. The reader is the browser's, a parameter (\<open>None\<close>: it fails).
\<close>

type_synonym reader = "File \<Rightarrow> jsstring option"

definition fileToDataUri :: "reader \<Rightarrow> File \<Rightarrow> jserror + jsstring" where
  "fileToDataUri rd f = (case rd f of None \<Rightarrow> Inl ReadError | Some uri \<Rightarrow> Inr uri)"

text \<open>\<open>files?.[0] ? await fileToDataUri(files[0]) : undefined\<close>\<close>

definition optionalDataUri :: "reader \<Rightarrow> FileList \<Rightarrow> jserror + jsstring option" where
  "optionalDataUri rd fs =
     (case fs of
        Some (f # _) \<Rightarrow>
          (case fileToDataUri rd f of Inl e \<Rightarrow> Inl e | Inr uri \<Rightarrow> Inr (Some uri))
      | _ \<Rightarrow> Inr None)"

type_synonym action =
  "GenerateMarketingAssetTemplatesInput \<Rightarrow> jserror + GenerateMarketingAssetTemplatesOutput"

definition asset_generated :: toast where
  "asset_generated =
     \<lparr> variant = Default, title = lit ''Asset Generated!'',
       description = lit ''Your new marketing asset is ready.'' \<rparr>"

definition generation_failed :: toast where
  "generation_failed =
     \<lparr> variant = Destructive, title = lit ''Generation Failed'',
       description = lit ''Could not generate the marketing asset. Please try again.'' \<rparr>"

text \<open>
  The \<open>try\<close> block of \<open>onSubmit\<close>: the state it leaves and the error thrown, if any.
  Reading \<open>values.logo[0]\<close> of a missing list, or a missing file, throws.
\<close>

definition onSubmit_try ::
  "reader \<Rightarrow> action \<Rightarrow> FormValues \<Rightarrow> ui_state \<Rightarrow> ui_state \<times> jserror option" where
  "onSubmit_try rd act values st =
     (case v_logo values of
        Some (logoFile # _) \<Rightarrow>
          (case fileToDataUri rd logoFile of
             Inl e \<Rightarrow> (st, Some e)
           | Inr logoUri \<Rightarrow>
          (case optionalDataUri rd (v_referenceImage1 values) of
             Inl e \<Rightarrow> (st, Some e)
           | Inr ref1 \<Rightarrow>
          (case optionalDataUri rd (v_referenceImage2 values) of
             Inl e \<Rightarrow> (st, Some e)
           | Inr ref2 \<Rightarrow>
             let input = \<lparr> businessLogoDataUri = logoUri,
                           businessName = v_businessName values,
                           assetType = v_assetType values,
                           customText = v_customText values,
                           colorPalette = v_colorPalette values,
                           imageDescription = v_imageDescription values,
                           referenceImage1DataUri = ref1,
                           referenceImage2DataUri = ref2 \<rparr>;
                 st' = st\<lparr> requests := requests st @ [input] \<rparr>
             in (case act input of
                   Inl e \<Rightarrow> (st', Some e)
                 | Inr result \<Rightarrow>
                     if assetDataUri result \<noteq> [] then
                       (st'\<lparr> generatedImage := Some (assetDataUri result),
                             toasts := toasts st' @ [asset_generated] \<rparr>, None)
                     else (st', Some (Error (lit ''AI did not return an image.'')))))))
      | _ \<Rightarrow> (st, Some TypeError))"

definition onSubmit :: "reader \<Rightarrow> action \<Rightarrow> FormValues \<Rightarrow> ui_state \<Rightarrow> ui_state" where
  "onSubmit rd act values st =
     (let st1 = st\<lparr> isLoading := True, generatedImage := None \<rparr>;
          (st2, thrown) = onSubmit_try rd act values st1;
          st3 = (case thrown of
                   None \<Rightarrow> st2
                 | Some e \<Rightarrow> st2\<lparr> toasts := toasts st2 @ [generation_failed] \<rparr>)
      in st3\<lparr> isLoading := False \<rparr>)"

text \<open>
  \<open>form.handleSubmit(onSubmit)\<close> with the schema as resolver: \<open>onSubmit\<close> runs on the
  parsed values only when the schema raises no issue.
\<close>

definition handleSubmit :: "reader \<Rightarrow> action \<Rightarrow> RawValues \<Rightarrow> ui_state \<Rightarrow> ui_state" where
  "handleSubmit rd act r st =
     (case formSchema r of
        Inl issues \<Rightarrow> st\<lparr> errors := issues \<rparr>
      | Inr values \<Rightarrow> onSubmit rd act values (st\<lparr> errors := [] \<rparr>))"


section \<open>Downloading the result (client.tsx)\<close>

text \<open>
  Pixels are RGBA with 8 bits a channel. A decoded image and the bitmap of a canvas
  give a pixel for each coordinate inside their width and height.
\<close>

record rgba =
  red :: "8 word"
  green :: "8 word"
  blue :: "8 word"
  alpha :: "8 word"

record Image =
  img_width :: nat
  img_height :: nat
  img_pixel :: "nat \<Rightarrow> nat \<Rightarrow> rgba"

record canvas =
  canvas_width :: nat
  canvas_height :: nat
  canvas_pixel :: "nat \<Rightarrow> nat \<Rightarrow> rgba"

definition transparent :: rgba where
  "transparent = \<lparr> red = 0, green = 0, blue = 0, alpha = 0 \<rparr>"

text \<open>The fill style \<open>#FFFFFF\<close>.\<close>

definition white :: rgba where
  "white = \<lparr> red = 255, green = 255, blue = 255, alpha = 255 \<rparr>"

text \<open>
  The canvas draws with the default compositing operation, source-over: the result's
  alpha is \<open>sa + da * (1 - sa)\<close>, a colour channel the alpha-weighted mean of source
  and destination. Channels are computed on naturals in units of 1/255, rounding down.
\<close>

definition blend :: "nat \<Rightarrow> nat \<Rightarrow> nat \<Rightarrow> nat \<Rightarrow> nat \<Rightarrow> nat" where
  "blend sc sa dc da a =
     (if a = 0 then 0 else (sc * sa * 255 + dc * da * (255 - sa)) div (a * 255))"

definition source_over :: "rgba \<Rightarrow> rgba \<Rightarrow> rgba" where
  "source_over s d =
     (let sa = unat (alpha s); da = unat (alpha d);
          a = sa + da * (255 - sa) div 255
      in \<lparr> red = of_nat (blend (unat (red s)) sa (unat (red d)) da a),
           green = of_nat (blend (unat (green s)) sa (unat (green d)) da a),
           blue = of_nat (blend (unat (blue s)) sa (unat (blue d)) da a),
           alpha = of_nat a \<rparr>)"

text \<open>Setting \<open>canvas.width\<close> and \<open>canvas.height\<close> clears the bitmap to transparent black.\<close>

definition resize :: "nat \<Rightarrow> nat \<Rightarrow> canvas" where
  "resize w h = \<lparr> canvas_width = w, canvas_height = h, canvas_pixel = (\<lambda>x y. transparent) \<rparr>"

definition fillRect :: "rgba \<Rightarrow> nat \<Rightarrow> nat \<Rightarrow> nat \<Rightarrow> nat \<Rightarrow> canvas \<Rightarrow> canvas" where
  "fillRect fillStyle x0 y0 w h c =
     c\<lparr> canvas_pixel := (\<lambda>x y.
          if x0 \<le> x \<and> x < x0 + w \<and> y0 \<le> y \<and> y < y0 + h
             \<and> x < canvas_width c \<and> y < canvas_height c
          then source_over fillStyle (canvas_pixel c x y)
          else canvas_pixel c x y) \<rparr>"

definition drawImage :: "Image \<Rightarrow> nat \<Rightarrow> nat \<Rightarrow> canvas \<Rightarrow> canvas" where
  "drawImage img x0 y0 c =
     c\<lparr> canvas_pixel := (\<lambda>x y.
          if x0 \<le> x \<and> x < x0 + img_width img \<and> y0 \<le> y \<and> y < y0 + img_height img
             \<and> x < canvas_width c \<and> y < canvas_height c
          then source_over (img_pixel img (x - x0) (y - y0)) (canvas_pixel c x y)
          else canvas_pixel c x y) \<rparr>"

text \<open>The canvas of the JPEG branch when \<open>toDataURL\<close> is called.\<close>

definition jpeg_canvas :: "Image \<Rightarrow> canvas" where
  "jpeg_canvas img =
     (let c0 = resize (img_width img) (img_height img);
          c1 = fillRect white 0 0 (canvas_width c0) (canvas_height c0) c0
      in drawImage img 0 0 c1)"

text \<open>
  What the browser does is a parameter: decoding the result's data URI (\<open>None\<close>: the
  image never loads and \<open>onload\<close> never runs), whether the canvas gives a 2d context,
  and \<open>canvas.toDataURL('image/jpeg', 0.9)\<close>.
\<close>

record browser =
  decode :: "jsstring \<Rightarrow> Image option"
  context2d :: bool
  toDataURL_jpeg :: "canvas \<Rightarrow> jsstring"

text \<open>The link that is clicked: \<open>link.href\<close> and \<open>link.download\<close>.\<close>

record link =
  href :: jsstring
  download :: jsstring

text \<open>\<open>form.getValues('businessName') || 'brandboost'\<close>\<close>

definition name_or_brandboost :: "jsstring option \<Rightarrow> jsstring" where
  "name_or_brandboost v =
     (case v of None \<Rightarrow> lit ''brandboost''
      | Some s \<Rightarrow> if s = [] then lit ''brandboost'' else s)"

definition downloadWithFormat :: "RawValues \<Rightarrow> jsstring \<Rightarrow> string \<Rightarrow> link" where
  "downloadWithFormat form uri format =
     \<lparr> href = uri,
       download = name_or_brandboost (raw_businessName form) @ lit ''-asset.'' @ lit format \<rparr>"

text \<open>
  \<open>handleDownload\<close>, given the form's current values: the link clicked, or \<open>None\<close>
  when nothing is downloaded.
\<close>

definition handleDownload :: "browser \<Rightarrow> RawValues \<Rightarrow> ui_state \<Rightarrow> link option" where
  "handleDownload b form st =
     (case generatedImage st of
        None \<Rightarrow> None
      | Some g \<Rightarrow>
          if g = [] then None
          else if downloadFormat st = lit ''jpeg'' then
            (case decode b g of
               None \<Rightarrow> None
             | Some img \<Rightarrow>
                 if context2d b
                 then Some (downloadWithFormat form (toDataURL_jpeg b (jpeg_canvas img)) ''jpeg'')
                 else None)
          else Some (downloadWithFormat form g ''png''))"


section \<open>Example inputs\<close>

text \<open>Concrete values at which the theorems below are instantiated.\<close>

definition example_file :: File where
  "example_file =
     \<lparr> file_name = lit ''logo.png'', file_type = lit ''image/png'', file_size = 1000 \<rparr>"

definition example_reader :: reader where
  "example_reader f = Some (lit ''data:image/png;base64,AAAA'')"

definition no_media :: generate where
  "no_media p = Inr None"

definition example_values :: FormValues where
  "example_values =
     \<lparr> v_logo = Some [example_file], v_businessName = lit ''Acme'',
       v_assetType = lit ''Flyer'', v_imageDescription = lit ''Sale'',
       v_referenceImage1 = None, v_referenceImage2 = None,
       v_customText = None, v_colorPalette = None \<rparr>"

text \<open>The request \<open>onSubmit\<close> builds from \<open>example_values\<close> with \<open>example_reader\<close>.\<close>

definition example_input :: GenerateMarketingAssetTemplatesInput where
  "example_input =
     \<lparr> businessLogoDataUri = lit ''data:image/png;base64,AAAA'',
       businessName = lit ''Acme'', assetType = lit ''Flyer'',
       customText = None, colorPalette = None,
       imageDescription = lit ''Sale'',
       referenceImage1DataUri = None, referenceImage2DataUri = None \<rparr>"

definition example_with_references :: GenerateMarketingAssetTemplatesInput where
  "example_with_references =
     \<lparr> businessLogoDataUri = lit ''data:image/png;base64,AAAA'',
       businessName = lit ''Acme'', assetType = lit ''Flyer'',
       customText = Some (lit ''Open now''), colorPalette = Some (lit ''blue and gold''),
       imageDescription = lit ''Sale'',
       referenceImage1DataUri = Some (lit ''data:image/png;base64,BBBB''),
       referenceImage2DataUri = Some (lit ''data:image/png;base64,CCCC'') \<rparr>"

text \<open>A state that shows the result of an earlier generation.\<close>

definition example_state :: ui_state where
  "example_state =
     \<lparr> generatedImage = Some (lit ''data:image/png;base64,OLD''), isLoading = False,
       downloadFormat = lit ''png'', errors = [], toasts = [], requests = [] \<rparr>"

text \<open>A form whose required fields are filled in but for the logo, and one left empty.\<close>

definition example_raw :: RawValues where
  "example_raw =
     \<lparr> raw_logo = None, raw_businessName = Some (lit ''Acme''),
       raw_assetType = Some (lit ''Flyer''), raw_imageDescription = Some (lit ''Sale''),
       raw_referenceImage1 = None, raw_referenceImage2 = None,
       raw_customText = Some [], raw_colorPalette = Some [] \<rparr>"

definition empty_raw :: RawValues where
  "empty_raw =
     \<lparr> raw_logo = None, raw_businessName = Some [],
       raw_assetType = Some (lit ''Social Media Post''), raw_imageDescription = Some [],
       raw_referenceImage1 = None, raw_referenceImage2 = None,
       raw_customText = Some [], raw_colorPalette = Some [] \<rparr>"

text \<open>A one-pixel, fully transparent image and a browser that decodes every URI to it.\<close>

definition clear_pixel :: "nat \<Rightarrow> nat \<Rightarrow> rgba" where
  "clear_pixel x y = transparent"

definition example_image :: Image where
  "example_image = \<lparr> img_width = 1, img_height = 1, img_pixel = clear_pixel \<rparr>"

definition example_decode :: "jsstring \<Rightarrow> Image option" where
  "example_decode uri = Some example_image"

definition example_encode :: "canvas \<Rightarrow> jsstring" where
  "example_encode c = lit ''data:image/jpeg;base64,DDDD''"

definition example_browser :: browser where
  "example_browser =
     \<lparr> decode = example_decode, context2d = True, toDataURL_jpeg = example_encode \<rparr>"

text \<open>A service that answers with media exactly when the prompt has an even number of parts.\<close>

definition even_parts_only :: generate where
  "even_parts_only p = (if even (length p) then Inr (Some (lit ''data:image/png;base64,EEEE'')) else Inr None)"


section \<open>Validation: helper lemmas\<close>

lemma refine_Nil_iff: "refine fld ok msg = [] \<longleftrightarrow> ok"
  by (simp add: refine_def)

lemma logoSchema_Nil_iff:
  "logoSchema fs = [] \<longleftrightarrow> length_is_one fs \<and> first_size_ok fs \<and> first_type_ok fs"
  by (simp add: logoSchema_def refine_Nil_iff)

lemma imageFileSchema_Nil_iff:
  "imageFileSchema fld fs = [] \<longleftrightarrow>
     no_files fs \<or> (first_size_ok fs \<and> first_type_ok fs)"
  by (auto simp add: imageFileSchema_def refine_Nil_iff)

lemma string_min_Nil_iff:
  "string_min fld k msg v = [] \<longleftrightarrow> (\<exists>s. v = Some s \<and> k \<le> length s)"
  by (cases v) (auto simp add: string_min_def)

lemma rejected_iff_issues: "rejected r \<longleftrightarrow> formSchema_issues r \<noteq> []"
proof (cases "formSchema_issues r = []")
  case True
  then have "string_min BusinessName 2 ''Business name must be at least 2 characters.''
               (raw_businessName r) = []"
    and "string_min AssetType 1 ''Please select an asset type.'' (raw_assetType r) = []"
    and "string_min ImageDescription 1 ''Image description is required.''
               (raw_imageDescription r) = []"
    by (simp_all add: formSchema_issues_def)
  then obtain n a d where "raw_businessName r = Some n" "raw_assetType r = Some a"
    "raw_imageDescription r = Some d"
    unfolding string_min_Nil_iff by blast
  with True show ?thesis by (simp add: rejected_def formSchema_def)
next
  case False
  then show ?thesis
    by (simp add: rejected_def formSchema_def split: option.splits)
qed


section \<open>Validation: the claims\<close>

text \<open>
  C8. A selected file (the one file of the logo's or of a reference image's file list)
  passes validation exactly when its MIME type is one of image/jpeg, image/jpg,
  image/png, image/webp and its size is at most 5 * 1024 * 1024 bytes; a file that
  violates either condition gets an issue.
\<close>

theorem selected_file_accepted_iff:
  "(logoSchema (Some [f]) = [] \<longleftrightarrow>
      file_type f \<in> {lit ''image/jpeg'', lit ''image/jpg'', lit ''image/png'', lit ''image/webp''}
      \<and> file_size f \<le> 5 * 1024 * 1024)
   \<and> (imageFileSchema fld (Some [f]) = [] \<longleftrightarrow>
      file_type f \<in> {lit ''image/jpeg'', lit ''image/jpg'', lit ''image/png'', lit ''image/webp''}
      \<and> file_size f \<le> 5 * 1024 * 1024)"
  by (auto simp add: logoSchema_Nil_iff imageFileSchema_Nil_iff length_is_one_def
      first_size_ok_def first_type_ok_def no_files_def MAX_FILE_SIZE_def
      ACCEPTED_IMAGE_TYPES_def)

theorem selected_file_accepted_iff_witness:
  "logoSchema (Some [\<lparr>file_name = lit ''logo.png'', file_type = lit ''image/png'',
                      file_size = 5242880\<rparr>]) = []
   \<and> imageFileSchema ReferenceImage1
        (Some [\<lparr>file_name = lit ''big.png'', file_type = lit ''image/png'',
                file_size = 5242881\<rparr>]) \<noteq> []
   \<and> logoSchema (Some [\<lparr>file_name = lit ''logo.gif'', file_type = lit ''image/gif'',
                      file_size = 10\<rparr>]) \<noteq> []"
  using selected_file_accepted_iff
          [of "\<lparr>file_name = lit ''logo.png'', file_type = lit ''image/png'',
                file_size = 5242880\<rparr>" ReferenceImage1]
        selected_file_accepted_iff
          [of "\<lparr>file_name = lit ''big.png'', file_type = lit ''image/png'',
                file_size = 5242881\<rparr>" ReferenceImage1]
        selected_file_accepted_iff
          [of "\<lparr>file_name = lit ''logo.gif'', file_type = lit ''image/gif'',
                file_size = 10\<rparr>" ReferenceImage1]
  by (simp add: lit_def)

text \<open>
  C10. A business name of fewer than 2 characters (UTF-16 code units, what
  \<open>.min(2)\<close> counts) is rejected by the form schema whatever the other fields hold;
  this is more than non-emptiness, since a form that is valid in every other field
  and has the one-character name \<open>A\<close> is rejected.
\<close>

theorem short_business_name_rejected:
  "(\<forall>r n. raw_businessName r = Some n \<and> length n < 2 \<longrightarrow> rejected r)
   \<and> (\<exists>r n. raw_businessName r = Some n \<and> n \<noteq> [] \<and> rejected r
        \<and> \<not> rejected (r\<lparr>raw_businessName := Some (n @ n)\<rparr>))"
proof (intro conjI allI impI)
  fix r :: RawValues and n
  assume "raw_businessName r = Some n \<and> length n < 2"
  then have "string_min BusinessName 2 ''Business name must be at least 2 characters.''
               (raw_businessName r) \<noteq> []"
    by (simp add: string_min_def)
  then show "rejected r"
    by (simp add: rejected_iff_issues formSchema_issues_def)
next
  let ?f = "\<lparr>file_name = lit ''logo.png'', file_type = lit ''image/png'', file_size = 1000\<rparr>"
  let ?r = "\<lparr>raw_logo = Some [?f], raw_businessName = Some (lit ''A''),
             raw_assetType = Some (lit ''Flyer''),
             raw_imageDescription = Some (lit ''Sale''),
             raw_referenceImage1 = None, raw_referenceImage2 = None,
             raw_customText = None, raw_colorPalette = None\<rparr>"
  have "raw_businessName ?r = Some (lit ''A'') \<and> lit ''A'' \<noteq> [] \<and> rejected ?r
        \<and> \<not> rejected (?r\<lparr>raw_businessName := Some (lit ''A'' @ lit ''A'')\<rparr>)"
    by (simp add: rejected_iff_issues formSchema_issues_def string_min_def lit_def
        logoSchema_def imageFileSchema_def refine_def length_is_one_def first_size_ok_def
        first_type_ok_def no_files_def MAX_FILE_SIZE_def ACCEPTED_IMAGE_TYPES_def)
  then show "\<exists>r n. raw_businessName r = Some n \<and> n \<noteq> [] \<and> rejected r
        \<and> \<not> rejected (r\<lparr>raw_businessName := Some (n @ n)\<rparr>)"
    by blast
qed

theorem short_business_name_rejected_witness:
  "rejected \<lparr>raw_logo = Some [example_file], raw_businessName = Some (lit ''A''),
             raw_assetType = Some (lit ''Flyer''),
             raw_imageDescription = Some (lit ''Sale''),
             raw_referenceImage1 = None, raw_referenceImage2 = None,
             raw_customText = None, raw_colorPalette = None\<rparr>"
proof -
  let ?r = "\<lparr>raw_logo = Some [example_file], raw_businessName = Some (lit ''A''),
             raw_assetType = Some (lit ''Flyer''),
             raw_imageDescription = Some (lit ''Sale''),
             raw_referenceImage1 = None, raw_referenceImage2 = None,
             raw_customText = None, raw_colorPalette = None\<rparr>"
  have h: "raw_businessName ?r = Some (lit ''A'') \<and> length (lit ''A'') < 2"
    by (simp add: lit_def)
  from short_business_name_rejected have
    "raw_businessName ?r = Some (lit ''A'') \<and> length (lit ''A'') < 2 \<longrightarrow> rejected ?r"
    by blast
  with h show ?thesis by blast
qed


section \<open>Prompt assembly: helper lemmas\<close>

lemma sublist_append_right: "sublist xs ys \<Longrightarrow> sublist xs (ps @ ys)"
  by (metis sublist_append)

lemma sublist3: "sublist (a @ b @ c) (a @ b @ c @ ss)"
  by (metis append_assoc sublist_append_rightI)

lemma suffix_append_right: "suffix xs ys \<Longrightarrow> suffix xs (ps @ ys)"
  by (simp add: suffix_appendI)

lemma or_empty_falsy: "\<not> truthy v \<Longrightarrow> or_empty v = []"
  by (simp add: truthy_def or_empty_def split: option.splits)

lemma quoted_falsy: "\<not> truthy v \<Longrightarrow> quoted v = []"
  by (simp add: quoted_def)

lemma provided_falsy: "\<not> truthy v \<Longrightarrow> provided v = []"
  by (simp add: truthy_def provided_def split: option.splits)

lemma promptText_instruction: "sublist reference_instruction (promptText i)"
  unfolding promptText_def
  by (rule sublist_append_rightI | rule sublist_append_right)+

lemma promptText_description: "sublist (imageDescription i) (promptText i)"
  unfolding promptText_def
  by (rule sublist_append_rightI | rule sublist_append_right)+

lemma promptText_custom_label: "sublist (lit ''Custom Text: '') (promptText i)"
  unfolding promptText_def
  by (rule sublist_append_rightI | rule sublist_append_right)+

lemma promptText_custom_absent:
  assumes "\<not> truthy (customText i)"
  shows "sublist (lit ''Custom Text: '' @ nl @ lit ''Color Palette: '') (promptText i)"
  unfolding promptText_def or_empty_falsy [OF assms] append_Nil
  by (rule sublist3 | rule sublist_append_right)+

lemma promptText_palette_absent:
  assumes "\<not> truthy (colorPalette i)"
  shows "suffix (lit ''Color Palette: '' @ nl) (promptText i)"
  unfolding promptText_def or_empty_falsy [OF assms] append_Nil
  by (rule suffix_order.refl | rule suffix_append_right)+

lemma promptText_not_label: "promptText i \<noteq> lit (CHR ''R'' # l)"
  by (simp add: promptText_def lit_def)

lemma media_urls_append: "media_urls (ps @ qs) = media_urls ps @ media_urls qs"
  by (induction ps rule: media_urls.induct) simp_all

lemma media_urls_push: "media_urls (push_reference l v) = provided v"
  by (simp add: push_reference_def provided_def split: option.splits)

lemma media_urls_flow_prompt:
  "media_urls (flow_prompt i) =
     businessLogoDataUri i # provided (referenceImage1DataUri i)
       @ provided (referenceImage2DataUri i)"
  by (simp add: flow_prompt_def media_urls_append media_urls_push)

lemma text_image_pairs_flow_prompt: "text_image_pairs (flow_prompt i)"
  by (simp add: flow_prompt_def push_reference_def split: option.splits)

lemma flow_prompt_parts:
  "flow_prompt i =
     [Text (promptText i), Media (businessLogoDataUri i)]
     @ (case referenceImage1DataUri i of None \<Rightarrow> []
        | Some u \<Rightarrow> if u = [] then [] else [Text (lit ''Reference Image 1:''), Media u])
     @ (case referenceImage2DataUri i of None \<Rightarrow> []
        | Some u \<Rightarrow> if u = [] then [] else [Text (lit ''Reference Image 2:''), Media u])"
  by (simp add: flow_prompt_def push_reference_def)

lemma promptText_prefix:
  "prefix (lit ''You are a professional graphic designer AI assistant'') (promptText i)"
  by (simp add: promptText_def lit_def)

lemma even_length_flow_prompt: "even (length (flow_prompt i))"
  by (simp add: flow_prompt_def push_reference_def split: option.splits)

lemma label1_absent:
  assumes "\<not> truthy (referenceImage1DataUri i)"
  shows "Text (lit ''Reference Image 1:'') \<notin> set (flow_prompt i)"
  using assms promptText_not_label [of i "''eference Image 1:''"]
  by (auto simp add: flow_prompt_def truthy_def push_reference_def lit_def
      split: option.splits)

lemma label2_absent:
  assumes "\<not> truthy (referenceImage2DataUri i)"
  shows "Text (lit ''Reference Image 2:'') \<notin> set (flow_prompt i)"
  using assms promptText_not_label [of i "''eference Image 2:''"]
  by (auto simp add: flow_prompt_def truthy_def push_reference_def lit_def
      split: option.splits)

lemma label1_present:
  "referenceImage1DataUri i = Some u \<Longrightarrow> u \<noteq> [] \<Longrightarrow>
     sublist [Text (lit ''Reference Image 1:''), Media u] (flow_prompt i)"
  unfolding flow_prompt_def
  by (rule sublist_append_right) (simp add: push_reference_def)

lemma label2_present:
  "referenceImage2DataUri i = Some u \<Longrightarrow> u \<noteq> [] \<Longrightarrow>
     sublist [Text (lit ''Reference Image 2:''), Media u] (flow_prompt i)"
  unfolding flow_prompt_def
  by (rule sublist_append_right, rule sublist_append_right) (simp add: push_reference_def)

lemma generationPrompt_render_eq:
  "generationPrompt_render t =
     [Text (lit ''You are a professional graphic designer AI assistant that creates high-quality, modern, and creative marketing assets for businesses.''
            @ nl @ nl @ lit ''Generate a '' @ assetType t
            @ lit '' that incorporates the user'' @ [0x2019]
            @ lit ''s provided business logo and name in a clean, visually appealing way. Use the custom text and color palette if provided.''
            @ nl @ nl @ lit ''Business Name: '' @ businessName t @ nl
            @ lit ''Business Logo: ''),
      Media (businessLogoDataUri t),
      Text (nl @ lit ''Custom Text: '' @ quoted (customText t) @ nl
            @ lit ''Color Palette: '' @ quoted (colorPalette t) @ nl)]"
  by (cases "customText t"; cases "colorPalette t")
    (simp_all add: generationPrompt_render_def render_template_def
      generationPrompt_template_def render_node_def render_inline_def request_object_def
      property_def unescaped_def interpolated_def truthy_value_def quoted_def truthy_def
      or_empty_def)

lemma generationPrompt_render_call_eq:
  "generationPrompt_render_call t =
     [Text (lit ''You are a professional graphic designer AI assistant that creates high-quality, modern, and creative marketing assets for businesses.''
            @ nl @ nl @ lit ''Generate a ''
            @ lit '' that incorporates the user'' @ [0x2019]
            @ lit ''s provided business logo and name in a clean, visually appealing way. Use the custom text and color palette if provided.''
            @ nl @ nl @ lit ''Business Name: '' @ nl
            @ lit ''Business Logo: ''),
      Media (lit ''undefined''),
      Text (nl @ lit ''Custom Text: '' @ nl @ lit ''Color Palette: '' @ nl)]"
  by (simp add: generationPrompt_render_call_def render_template_def
      generationPrompt_template_def render_node_def render_inline_def
      property_def unescaped_def interpolated_def truthy_value_def)

lemma render_template_extra:
  "render_template generationPrompt_template
     ((''imageDescription'', x) # (''referenceImage1DataUri'', y)
        # (''referenceImage2DataUri'', z) # obj)
   = render_template generationPrompt_template obj"
  by (simp add: render_template_def generationPrompt_template_def render_node_def
      render_inline_def property_def)

lemma media_urls_join_text: "media_urls (join_text ps) = media_urls ps"
  by (induction ps rule: join_text.induct) (auto split: list.splits part.splits)

lemma template_one_image:
  "media_urls (render_template generationPrompt_template obj)
     = [interpolated (property obj ''businessLogoDataUri'')]"
  by (simp add: render_template_def media_urls_join_text generationPrompt_template_def
      render_node_def render_inline_def)

lemma template_custom_absent:
  assumes "\<not> truthy (customText t)"
  shows "sublist (lit ''Custom Text: '' @ nl @ lit ''Color Palette: '')
           (concat (prompt_texts (generationPrompt_render t)))"
  unfolding generationPrompt_render_eq prompt_texts.simps concat.simps append_Nil2
    quoted_falsy [OF assms] append_Nil append_assoc
  by (rule sublist3 | rule sublist_append_right)+

lemma template_palette_absent:
  assumes "\<not> truthy (colorPalette t)"
  shows "suffix (lit ''Color Palette: '' @ nl)
           (concat (prompt_texts (generationPrompt_render t)))"
  unfolding generationPrompt_render_eq prompt_texts.simps concat.simps append_Nil2
    quoted_falsy [OF assms] append_Nil append_assoc
  by (rule suffix_order.refl | rule suffix_append_right)+

lemma instruction_has_D: "0x44 \<in> set reference_instruction"
  by (simp add: reference_instruction_def lit_def)

lemma example_template_text_no_D:
  "0x44 \<notin> set (concat (prompt_texts (generationPrompt_render (strip_unknown example_input))))"
  by (simp add: generationPrompt_render_eq strip_unknown_def TemplateInput.truncate_def
      example_input_def quoted_def truthy_def lit_def nl_def)

lemma strip_unknown_update:
  "strip_unknown (i\<lparr>imageDescription := d, referenceImage1DataUri := r1,
                     referenceImage2DataUri := r2\<rparr>) = strip_unknown i"
  by (simp add: strip_unknown_def TemplateInput.truncate_def)

lemma flows_differ_on_even_parts_only:
  "generateMarketingAssetTemplatesFlow even_parts_only i
     \<noteq> generateMarketingAssetTemplatesFlow2 even_parts_only (strip_unknown i)"
  using even_length_flow_prompt [of i]
  by (simp add: generateMarketingAssetTemplatesFlow_def
      generateMarketingAssetTemplatesFlow2_def even_parts_only_def
      generationPrompt_render_call_eq)


section \<open>Prompt assembly: the claims\<close>

text \<open>
  C3, as the claim states it, fails: a request without custom text still gets the
  text \<open>Custom Text: \<close> in its prompt.
\<close>

theorem absent_field_label_counterexample:
  "customText example_input = None
   \<and> sublist (lit ''Custom Text: '') (promptText example_input)"
  by (simp add: example_input_def promptText_custom_label)

text \<open>
  C3, amended. When the custom text or the colour palette is absent (undefined or
  empty), the prompt text of either variant keeps the field's line and puts nothing
  after its label: \<open>Custom Text: \<close> is followed at once by the line break and
  \<open>Color Palette: \<close>, and the text ends with \<open>Color Palette: \<close> and a line break.
  When a reference image is absent, the prompt of the first variant has no part with
  its label, and its images are the logo and the other reference image, if provided.
\<close>

theorem absent_optional_fields:
  "(\<not> truthy (customText i) \<longrightarrow>
      sublist (lit ''Custom Text: '' @ nl @ lit ''Color Palette: '') (promptText i))
   \<and> (\<not> truthy (colorPalette i) \<longrightarrow> suffix (lit ''Color Palette: '' @ nl) (promptText i))
   \<and> (\<not> truthy (referenceImage1DataUri i) \<longrightarrow>
        Text (lit ''Reference Image 1:'') \<notin> set (flow_prompt i)
        \<and> media_urls (flow_prompt i)
            = businessLogoDataUri i # provided (referenceImage2DataUri i))
   \<and> (\<not> truthy (referenceImage2DataUri i) \<longrightarrow>
        Text (lit ''Reference Image 2:'') \<notin> set (flow_prompt i)
        \<and> media_urls (flow_prompt i)
            = businessLogoDataUri i # provided (referenceImage1DataUri i))
   \<and> (\<not> truthy (customText t) \<longrightarrow>
        sublist (lit ''Custom Text: '' @ nl @ lit ''Color Palette: '')
          (concat (prompt_texts (generationPrompt_render t))))
   \<and> (\<not> truthy (colorPalette t) \<longrightarrow>
        suffix (lit ''Color Palette: '' @ nl)
          (concat (prompt_texts (generationPrompt_render t))))"
  by (simp add: promptText_custom_absent promptText_palette_absent label1_absent
      label2_absent media_urls_flow_prompt provided_falsy template_custom_absent
      template_palette_absent)

theorem absent_optional_fields_witness:
  "sublist (lit ''Custom Text: '' @ nl @ lit ''Color Palette: '') (promptText example_input)
   \<and> suffix (lit ''Color Palette: '' @ nl) (promptText example_input)
   \<and> Text (lit ''Reference Image 1:'') \<notin> set (flow_prompt example_input)
   \<and> Text (lit ''Reference Image 2:'') \<notin> set (flow_prompt example_input)
   \<and> suffix (lit ''Color Palette: '' @ nl)
        (concat (prompt_texts (generationPrompt_render (strip_unknown example_input))))"
proof -
  have h: "\<not> truthy (customText example_input)" "\<not> truthy (colorPalette example_input)"
    "\<not> truthy (referenceImage1DataUri example_input)"
    "\<not> truthy (referenceImage2DataUri example_input)"
    "\<not> truthy (colorPalette (strip_unknown example_input))"
    by (simp_all add: example_input_def truthy_def strip_unknown_def
        TemplateInput.truncate_def)
  from h absent_optional_fields [of example_input "strip_unknown example_input"]
  show ?thesis by blast
qed

text \<open>
  C5, as the claim states it, fails for the logo: the text part before the logo is
  not a label. For the example request the prompt is two parts, and the text before
  the logo is the whole instruction text, 526 code units that begin with \<open>You are a
  professional graphic designer AI assistant\<close> and end with the colour palette line.
\<close>

theorem logo_without_label_counterexample:
  "flow_prompt example_input
     = [Text (promptText example_input), Media (businessLogoDataUri example_input)]
   \<and> prefix (lit ''You are a professional graphic designer AI assistant'')
        (promptText example_input)
   \<and> suffix (lit ''Color Palette: '' @ nl) (promptText example_input)
   \<and> length (promptText example_input) = 526"
proof -
  have "\<not> truthy (colorPalette example_input)"
    by (simp add: example_input_def truthy_def)
  then have "suffix (lit ''Color Palette: '' @ nl) (promptText example_input)"
    by (rule promptText_palette_absent)
  moreover have "flow_prompt example_input
     = [Text (promptText example_input), Media (businessLogoDataUri example_input)]"
    by (simp add: flow_prompt_parts) (simp add: example_input_def)
  moreover have "length (promptText example_input) = 526"
    by (simp add: promptText_def example_input_def lit_def nl_def dquote_def
        reference_instruction_def or_empty_def)
  ultimately show ?thesis
    by (simp add: promptText_prefix)
qed

text \<open>
  C5, amended. The prompt of the first variant is a sequence of pairs, a text part
  and then an image part. The first pair is the instruction text (spelled out
  below) and the logo, which has no label of its own; then, for each reference
  image provided, in order, come its label \<open>Reference Image 1:\<close> or
  \<open>Reference Image 2:\<close> and the image. So the images are the logo followed by the
  reference images provided, and a provided reference image comes right after its
  label.
\<close>

theorem prompt_segments_ordered:
  "flow_prompt i =
     [Text (promptText i), Media (businessLogoDataUri i)]
     @ (case referenceImage1DataUri i of None \<Rightarrow> []
        | Some u \<Rightarrow> if u = [] then [] else [Text (lit ''Reference Image 1:''), Media u])
     @ (case referenceImage2DataUri i of None \<Rightarrow> []
        | Some u \<Rightarrow> if u = [] then [] else [Text (lit ''Reference Image 2:''), Media u])
   \<and> promptText i =
       lit ''You are a professional graphic designer AI assistant that creates high-quality, modern, and creative marketing assets for businesses.''
       @ [0x0A, 0x0A]
       @ lit ''Generate a '' @ assetType i
       @ lit '' based on the following description: ''
       @ [0x22] @ imageDescription i @ [0x22] @ lit ''.''
       @ [0x0A, 0x0A]
       @ lit ''Incorporate the user'' @ [0xE2, 0x20AC, 0x2122]
       @ lit ''s provided business logo and name in a clean, visually appealing way. Use the custom text and color palette if provided.''
       @ [0x0A, 0x0A]
       @ lit ''If reference images are provided, use them for general inspiration only. Do not copy any text or graphics from the reference images.''
       @ [0x0A, 0x0A]
       @ lit ''Business Name: '' @ businessName i @ [0x0A]
       @ lit ''Custom Text: '' @ (case customText i of None \<Rightarrow> [] | Some s \<Rightarrow> s) @ [0x0A]
       @ lit ''Color Palette: '' @ (case colorPalette i of None \<Rightarrow> [] | Some s \<Rightarrow> s)
       @ [0x0A]
   \<and> text_image_pairs (flow_prompt i)
   \<and> media_urls (flow_prompt i)
       = businessLogoDataUri i # provided (referenceImage1DataUri i)
           @ provided (referenceImage2DataUri i)
   \<and> (\<forall>u. referenceImage1DataUri i = Some u \<and> u \<noteq> [] \<longrightarrow>
         sublist [Text (lit ''Reference Image 1:''), Media u] (flow_prompt i))
   \<and> (\<forall>u. referenceImage2DataUri i = Some u \<and> u \<noteq> [] \<longrightarrow>
         sublist [Text (lit ''Reference Image 2:''), Media u] (flow_prompt i))"
proof (intro conjI allI impI)
  show "flow_prompt i =
     [Text (promptText i), Media (businessLogoDataUri i)]
     @ (case referenceImage1DataUri i of None \<Rightarrow> []
        | Some u \<Rightarrow> if u = [] then [] else [Text (lit ''Reference Image 1:''), Media u])
     @ (case referenceImage2DataUri i of None \<Rightarrow> []
        | Some u \<Rightarrow> if u = [] then [] else [Text (lit ''Reference Image 2:''), Media u])"
    by (rule flow_prompt_parts)
  show "promptText i =
       lit ''You are a professional graphic designer AI assistant that creates high-quality, modern, and creative marketing assets for businesses.''
       @ [0x0A, 0x0A]
       @ lit ''Generate a '' @ assetType i
       @ lit '' based on the following description: ''
       @ [0x22] @ imageDescription i @ [0x22] @ lit ''.''
       @ [0x0A, 0x0A]
       @ lit ''Incorporate the user'' @ [0xE2, 0x20AC, 0x2122]
       @ lit ''s provided business logo and name in a clean, visually appealing way. Use the custom text and color palette if provided.''
       @ [0x0A, 0x0A]
       @ lit ''If reference images are provided, use them for general inspiration only. Do not copy any text or graphics from the reference images.''
       @ [0x0A, 0x0A]
       @ lit ''Business Name: '' @ businessName i @ [0x0A]
       @ lit ''Custom Text: '' @ (case customText i of None \<Rightarrow> [] | Some s \<Rightarrow> s) @ [0x0A]
       @ lit ''Color Palette: '' @ (case colorPalette i of None \<Rightarrow> [] | Some s \<Rightarrow> s)
       @ [0x0A]"
    by (simp add: promptText_def nl_def dquote_def reference_instruction_def or_empty_def)
  show "text_image_pairs (flow_prompt i)"
    by (rule text_image_pairs_flow_prompt)
  show "media_urls (flow_prompt i)
       = businessLogoDataUri i # provided (referenceImage1DataUri i)
           @ provided (referenceImage2DataUri i)"
    by (rule media_urls_flow_prompt)
  show "sublist [Text (lit ''Reference Image 1:''), Media u] (flow_prompt i)"
    if "referenceImage1DataUri i = Some u \<and> u \<noteq> []" for u
    using that by (simp add: label1_present)
  show "sublist [Text (lit ''Reference Image 2:''), Media u] (flow_prompt i)"
    if "referenceImage2DataUri i = Some u \<and> u \<noteq> []" for u
    using that by (simp add: label2_present)
qed

theorem prompt_segments_ordered_witness:
  "sublist [Text (lit ''Reference Image 1:''), Media (lit ''data:image/png;base64,BBBB'')]
     (flow_prompt example_with_references)
   \<and> sublist [Text (lit ''Reference Image 2:''), Media (lit ''data:image/png;base64,CCCC'')]
     (flow_prompt example_with_references)
   \<and> text_image_pairs (flow_prompt example_with_references)
   \<and> media_urls (flow_prompt example_with_references)
       = [lit ''data:image/png;base64,AAAA'', lit ''data:image/png;base64,BBBB'',
          lit ''data:image/png;base64,CCCC'']"
proof -
  have h: "referenceImage1DataUri example_with_references
             = Some (lit ''data:image/png;base64,BBBB'')
           \<and> lit ''data:image/png;base64,BBBB'' \<noteq> []"
    "referenceImage2DataUri example_with_references
             = Some (lit ''data:image/png;base64,CCCC'')
           \<and> lit ''data:image/png;base64,CCCC'' \<noteq> []"
    by (simp_all add: example_with_references_def lit_def)
  have m: "businessLogoDataUri example_with_references
             # provided (referenceImage1DataUri example_with_references)
             @ provided (referenceImage2DataUri example_with_references)
           = [lit ''data:image/png;base64,AAAA'', lit ''data:image/png;base64,BBBB'',
              lit ''data:image/png;base64,CCCC'']"
    using h by (simp add: provided_def) (simp add: example_with_references_def)
  from prompt_segments_ordered [of example_with_references]
  have "media_urls (flow_prompt example_with_references)
       = businessLogoDataUri example_with_references
             # provided (referenceImage1DataUri example_with_references)
             @ provided (referenceImage2DataUri example_with_references)"
    by blast
  with m have "media_urls (flow_prompt example_with_references)
       = [lit ''data:image/png;base64,AAAA'', lit ''data:image/png;base64,BBBB'',
          lit ''data:image/png;base64,CCCC'']"
    by simp
  moreover from h prompt_segments_ordered [of example_with_references]
  have "sublist [Text (lit ''Reference Image 1:''), Media (lit ''data:image/png;base64,BBBB'')]
     (flow_prompt example_with_references)
   \<and> sublist [Text (lit ''Reference Image 2:''), Media (lit ''data:image/png;base64,CCCC'')]
     (flow_prompt example_with_references)
   \<and> text_image_pairs (flow_prompt example_with_references)"
    by blast
  ultimately show ?thesis by blast
qed

text \<open>
  C6. The two variants differ. The first puts the image description into its prompt
  text and every provided reference image among its prompt's images. The second
  omits them: its input schema keeps five keys and drops the description and the
  reference images, and its template does not read them, so that adding these three
  properties to any data object leaves the rendering as it is, with one image. The
  prompt of the first variant is never the one the second variant's flow gets from
  its call of \<open>render\<close>, nor the template rendered on the request itself, and there
  is a service on which the two flows return different results.
\<close>

theorem variants_not_equivalent:
  "sublist (imageDescription i) (promptText i)
   \<and> (\<forall>u. referenceImage1DataUri i = Some u \<and> u \<noteq> [] \<longrightarrow> u \<in> set (media_urls (flow_prompt i)))
   \<and> (\<forall>u. referenceImage2DataUri i = Some u \<and> u \<noteq> [] \<longrightarrow> u \<in> set (media_urls (flow_prompt i)))
   \<and> strip_unknown (i\<lparr>imageDescription := d, referenceImage1DataUri := r1,
                        referenceImage2DataUri := r2\<rparr>) = strip_unknown i
   \<and> render_template generationPrompt_template
        ((''imageDescription'', x) # (''referenceImage1DataUri'', y)
           # (''referenceImage2DataUri'', z) # obj)
       = render_template generationPrompt_template obj
   \<and> length (media_urls (render_template generationPrompt_template obj)) = 1
   \<and> flow_prompt i \<noteq> generationPrompt_render_call (strip_unknown i)
   \<and> flow_prompt i \<noteq> generationPrompt_render (strip_unknown i)
   \<and> (\<exists>gen. generateMarketingAssetTemplatesFlow gen i
          \<noteq> generateMarketingAssetTemplatesFlow2 gen (strip_unknown i))"
proof (intro conjI allI impI)
  show "sublist (imageDescription i) (promptText i)"
    by (rule promptText_description)
  show "u \<in> set (media_urls (flow_prompt i))"
    if "referenceImage1DataUri i = Some u \<and> u \<noteq> []" for u
    using that by (simp add: media_urls_flow_prompt provided_def)
  show "u \<in> set (media_urls (flow_prompt i))"
    if "referenceImage2DataUri i = Some u \<and> u \<noteq> []" for u
    using that by (simp add: media_urls_flow_prompt provided_def)
  show "strip_unknown (i\<lparr>imageDescription := d, referenceImage1DataUri := r1,
                        referenceImage2DataUri := r2\<rparr>) = strip_unknown i"
    by (rule strip_unknown_update)
  show "render_template generationPrompt_template
        ((''imageDescription'', x) # (''referenceImage1DataUri'', y)
           # (''referenceImage2DataUri'', z) # obj)
       = render_template generationPrompt_template obj"
    by (rule render_template_extra)
  show "length (media_urls (render_template generationPrompt_template obj)) = 1"
    by (simp add: template_one_image)
  show "flow_prompt i \<noteq> generationPrompt_render_call (strip_unknown i)"
  proof
    assume "flow_prompt i = generationPrompt_render_call (strip_unknown i)"
    then have "length (flow_prompt i) = 3"
      by (simp add: generationPrompt_render_call_eq)
    with even_length_flow_prompt [of i] show False by simp
  qed
  show "flow_prompt i \<noteq> generationPrompt_render (strip_unknown i)"
  proof
    assume "flow_prompt i = generationPrompt_render (strip_unknown i)"
    then have "length (flow_prompt i) = 3"
      by (simp add: generationPrompt_render_eq)
    with even_length_flow_prompt [of i] show False by simp
  qed
  show "\<exists>gen. generateMarketingAssetTemplatesFlow gen i
          \<noteq> generateMarketingAssetTemplatesFlow2 gen (strip_unknown i)"
    using flows_differ_on_even_parts_only by blast
qed

theorem variants_not_equivalent_witness:
  "lit ''data:image/png;base64,BBBB'' \<in> set (media_urls (flow_prompt example_with_references))
   \<and> lit ''data:image/png;base64,CCCC'' \<in> set (media_urls (flow_prompt example_with_references))
   \<and> flow_prompt example_with_references
       \<noteq> generationPrompt_render_call (strip_unknown example_with_references)"
proof -
  have h: "referenceImage1DataUri example_with_references
             = Some (lit ''data:image/png;base64,BBBB'')
           \<and> lit ''data:image/png;base64,BBBB'' \<noteq> []"
    "referenceImage2DataUri example_with_references
             = Some (lit ''data:image/png;base64,CCCC'')
           \<and> lit ''data:image/png;base64,CCCC'' \<noteq> []"
    by (simp_all add: example_with_references_def lit_def)
  from h variants_not_equivalent [of example_with_references]
  show ?thesis by blast
qed

text \<open>
  C7, as the claim states it for every assembled prompt, fails on the second variant:
  the text its template renders for the example request does not contain the
  instruction on reference images.
\<close>

theorem template_lacks_instruction_counterexample:
  "\<not> sublist reference_instruction
       (concat (prompt_texts (generationPrompt_render (strip_unknown example_input))))"
  using instruction_has_D example_template_text_no_D set_mono_sublist by blast

text \<open>
  C7, amended. Every prompt the first variant assembles (the variant that takes
  reference images) starts with a text part that contains the two sentences
  \<open>If reference images are provided, use them for general inspiration only. Do not
  copy any text or graphics from the reference images.\<close>
\<close>

theorem prompt_tells_inspiration_only:
  "hd (flow_prompt i) = Text (promptText i)
   \<and> sublist
       (lit ''If reference images are provided, use them for general inspiration only. Do not copy any text or graphics from the reference images.'')
       (promptText i)"
  using promptText_instruction [of i]
  by (simp add: flow_prompt_def reference_instruction_def)

theorem prompt_tells_inspiration_only_witness:
  "sublist
     (lit ''If reference images are provided, use them for general inspiration only. Do not copy any text or graphics from the reference images.'')
     (promptText example_with_references)"
  using prompt_tells_inspiration_only [of example_with_references] by blast


section \<open>Submitting the form: helper lemmas\<close>

lemma flow_no_media:
  "gen (flow_prompt input) = Inr None \<Longrightarrow>
     generateMarketingAssetTemplates gen input = Inl (Error (lit ''Image generation failed.''))"
  by (simp add: generateMarketingAssetTemplates_def generateMarketingAssetTemplatesFlow_def)

lemma onSubmit_try_sent:
  assumes "requests (fst (onSubmit_try rd act v st)) = requests st @ [input]"
    and "act input = Inl e"
  shows "onSubmit_try rd act v st = (st\<lparr>requests := requests st @ [input]\<rparr>, Some e)"
  using assms
  by (auto simp add: onSubmit_try_def Let_def
      split: option.splits list.splits sum.splits if_splits)

lemma onSubmit_requests:
  "requests (onSubmit rd act v st)
     = requests (fst (onSubmit_try rd act v (st\<lparr>isLoading := True, generatedImage := None\<rparr>)))"
  by (simp add: onSubmit_def Let_def split: prod.splits option.splits)

lemma example_submission:
  "onSubmit_try example_reader (generateMarketingAssetTemplates no_media) example_values st
     = (st\<lparr>requests := requests st @ [example_input]\<rparr>,
        Some (Error (lit ''Image generation failed.'')))"
  by (simp add: onSubmit_try_def example_values_def example_reader_def fileToDataUri_def
      optionalDataUri_def example_input_def generateMarketingAssetTemplates_def
      generateMarketingAssetTemplatesFlow_def no_media_def Let_def)

lemma handleSubmit_rejected:
  "rejected r \<Longrightarrow> handleSubmit rd act r st = st\<lparr>errors := formSchema_issues r\<rparr>"
  by (auto simp add: handleSubmit_def rejected_def formSchema_def
      split: sum.splits option.splits if_splits)

lemma string_min_falsy:
  "\<not> truthy v \<Longrightarrow> 0 < k \<Longrightarrow> string_min fld k msg v \<noteq> []"
  by (auto simp add: string_min_def truthy_def split: option.splits)

lemma logoSchema_no_files: "no_files fs \<Longrightarrow> logoSchema fs \<noteq> []"
  by (auto simp add: logoSchema_Nil_iff no_files_def length_is_one_def split: option.splits)

lemma missing_required_rejected:
  assumes "no_files (raw_logo r) \<or> \<not> truthy (raw_businessName r)
           \<or> \<not> truthy (raw_assetType r) \<or> \<not> truthy (raw_imageDescription r)"
  shows "rejected r"
proof -
  from assms consider (logo) "no_files (raw_logo r)" | (name) "\<not> truthy (raw_businessName r)"
    | (type) "\<not> truthy (raw_assetType r)" | (descr) "\<not> truthy (raw_imageDescription r)"
    by blast
  then have "formSchema_issues r \<noteq> []"
  proof cases
    case logo
    then show ?thesis by (simp add: formSchema_issues_def logoSchema_no_files)
  next
    case name
    then show ?thesis by (simp add: formSchema_issues_def string_min_falsy)
  next
    case type
    then show ?thesis by (simp add: formSchema_issues_def string_min_falsy)
  next
    case descr
    then show ?thesis by (simp add: formSchema_issues_def string_min_falsy)
  qed
  then show ?thesis by (simp add: rejected_iff_issues)
qed


section \<open>Submitting the form: the claims\<close>

text \<open>
  C1, as the claim states it, fails in its second half: a submission whose
  generation call returns no media does not leave the result shown before it
  unchanged. The example state shows an earlier result; after the failed submission
  there is none.
\<close>

theorem prior_result_cleared_counterexample:
  "generatedImage example_state = Some (lit ''data:image/png;base64,OLD'')
   \<and> no_media (flow_prompt example_input) = Inr None
   \<and> requests (onSubmit example_reader (generateMarketingAssetTemplates no_media)
        example_values example_state) = [example_input]
   \<and> generatedImage (onSubmit example_reader (generateMarketingAssetTemplates no_media)
        example_values example_state) = None"
  by (simp add: onSubmit_def example_submission) (simp add: example_state_def no_media_def)

text \<open>
  C1, amended. For every submission that sends a request for which the generation
  call returns no media, one destructive toast (\<open>Generation Failed\<close>) is added,
  loading ends, and no result is shown any more: \<open>onSubmit\<close> clears the result
  before the call, and the failed call leaves it cleared.
\<close>

theorem no_media_toast_and_cleared:
  assumes "requests (onSubmit rd (generateMarketingAssetTemplates gen) v st)
             = requests st @ [input]"
    and "gen (flow_prompt input) = Inr None"
  shows "toasts (onSubmit rd (generateMarketingAssetTemplates gen) v st)
           = toasts st @ [generation_failed]
     \<and> variant generation_failed = Destructive
     \<and> generatedImage (onSubmit rd (generateMarketingAssetTemplates gen) v st) = None
     \<and> isLoading (onSubmit rd (generateMarketingAssetTemplates gen) v st) = False"
proof -
  let ?st1 = "st\<lparr>isLoading := True, generatedImage := None\<rparr>"
  let ?act = "generateMarketingAssetTemplates gen"
  have sent: "requests (fst (onSubmit_try rd ?act v ?st1)) = requests ?st1 @ [input]"
    using assms(1) by (simp add: onSubmit_requests)
  have "onSubmit_try rd ?act v ?st1 =
          (?st1\<lparr>requests := requests ?st1 @ [input]\<rparr>,
           Some (Error (lit ''Image generation failed.'')))"
    by (rule onSubmit_try_sent [OF sent flow_no_media [of gen input, OF assms(2)]])
  then show ?thesis
    by (simp add: onSubmit_def generation_failed_def)
qed

theorem no_media_toast_and_cleared_witness:
  "toasts (onSubmit example_reader (generateMarketingAssetTemplates no_media)
             example_values example_state) = toasts example_state @ [generation_failed]
     \<and> variant generation_failed = Destructive
     \<and> generatedImage (onSubmit example_reader (generateMarketingAssetTemplates no_media)
             example_values example_state) = None
     \<and> isLoading (onSubmit example_reader (generateMarketingAssetTemplates no_media)
             example_values example_state) = False"
proof -
  have sent: "requests (onSubmit example_reader (generateMarketingAssetTemplates no_media)
                example_values example_state) = requests example_state @ [example_input]"
    by (simp add: onSubmit_def example_submission)
  have none: "no_media (flow_prompt example_input) = Inr None"
    by (simp add: no_media_def)
  show ?thesis
    by (rule no_media_toast_and_cleared [OF sent none])
qed

text \<open>
  C2. A submission whose logo is missing or an empty file list, or whose business
  name, asset type or image description is missing or empty, is rejected by the
  form schema: \<open>handleSubmit\<close> records the schema's issues (there is at least one),
  does not run \<open>onSubmit\<close>, and sends no request.
\<close>

theorem missing_required_field_rejected:
  assumes "no_files (raw_logo r) \<or> \<not> truthy (raw_businessName r)
           \<or> \<not> truthy (raw_assetType r) \<or> \<not> truthy (raw_imageDescription r)"
  shows "handleSubmit rd act r st = st\<lparr>errors := formSchema_issues r\<rparr>
     \<and> formSchema_issues r \<noteq> []
     \<and> requests (handleSubmit rd act r st) = requests st
     \<and> generatedImage (handleSubmit rd act r st) = generatedImage st
     \<and> toasts (handleSubmit rd act r st) = toasts st"
proof -
  have "rejected r"
    by (rule missing_required_rejected [OF assms])
  then show ?thesis
    by (simp add: handleSubmit_rejected rejected_iff_issues)
qed

theorem missing_required_field_rejected_witness:
  "requests (handleSubmit example_reader (generateMarketingAssetTemplates no_media)
       example_raw example_state) = requests example_state
   \<and> requests (handleSubmit example_reader (generateMarketingAssetTemplates no_media)
       empty_raw example_state) = requests example_state
   \<and> formSchema_issues example_raw \<noteq> []"
proof -
  have h1: "no_files (raw_logo example_raw) \<or> \<not> truthy (raw_businessName example_raw)
           \<or> \<not> truthy (raw_assetType example_raw)
           \<or> \<not> truthy (raw_imageDescription example_raw)"
    by (simp add: example_raw_def no_files_def)
  have h2: "no_files (raw_logo empty_raw) \<or> \<not> truthy (raw_businessName empty_raw)
           \<or> \<not> truthy (raw_assetType empty_raw)
           \<or> \<not> truthy (raw_imageDescription empty_raw)"
    by (simp add: empty_raw_def no_files_def)
  from missing_required_field_rejected [OF h1] missing_required_field_rejected [OF h2]
  show ?thesis by blast
qed


section \<open>Downloading the result: helper lemmas\<close>

lemma unat8_le: "unat (w :: 8 word) \<le> 255"
  using unsigned_less [of w, where ?'a = nat] by simp

lemma source_over_white_alpha: "alpha (source_over s white) = 255"
proof -
  have "unat (alpha s) + 255 * (255 - unat (alpha s)) div 255 = 255"
    using unat8_le [of "alpha s"] by simp
  then show ?thesis
    by (simp add: source_over_def white_def Let_def)
qed

lemma source_over_transparent_src:
  assumes "alpha s = 0"
  shows "source_over s white = white"
  using assms by (simp add: source_over_def white_def Let_def blend_def)

lemma source_over_opaque_src:
  assumes "alpha s = 255"
  shows "source_over s d = s"
  using assms by (simp add: source_over_def Let_def blend_def)

lemma jpeg_canvas_size:
  "canvas_width (jpeg_canvas img) = img_width img
   \<and> canvas_height (jpeg_canvas img) = img_height img"
  by (simp add: jpeg_canvas_def Let_def drawImage_def fillRect_def resize_def)

lemma jpeg_canvas_pixel:
  assumes "x < img_width img" "y < img_height img"
  shows "canvas_pixel (jpeg_canvas img) x y = source_over (img_pixel img x y) white"
  using assms
  by (simp add: jpeg_canvas_def Let_def drawImage_def fillRect_def resize_def
      source_over_def transparent_def white_def blend_def)

lemma png_not_jpeg: "lit ''png'' \<noteq> lit ''jpeg''"
  by (simp add: lit_def)

lemma handleDownload_name:
  assumes "handleDownload b form st = Some l"
  shows "download l = name_or_brandboost (raw_businessName form) @ lit ''-asset.''
           @ (if downloadFormat st = lit ''jpeg'' then lit ''jpeg'' else lit ''png'')"
  using assms
  by (auto simp add: handleDownload_def downloadWithFormat_def
      split: option.splits if_splits)


section \<open>Downloading the result: the claims\<close>

text \<open>
  C4. With the format PNG the link downloaded is the result's data URI itself. With
  the format JPEG, when the result decodes to an image and the canvas has a 2d
  context, the link is the JPEG encoding of a canvas of the image's size onto which
  the image was drawn over a white fill; every download in the JPEG format is of
  that kind. Every pixel of that canvas is opaque: it is white where the image is
  fully transparent and the image's own pixel where the image is opaque.
\<close>

theorem download_conversion:
  "(generatedImage st = Some g \<and> g \<noteq> [] \<and> downloadFormat st = lit ''png'' \<longrightarrow>
      (\<exists>l. handleDownload b form st = Some l \<and> href l = g))
   \<and> (generatedImage st = Some g \<and> g \<noteq> [] \<and> downloadFormat st = lit ''jpeg''
        \<and> decode b g = Some img \<and> context2d b \<longrightarrow>
      (\<exists>l. handleDownload b form st = Some l
           \<and> href l = toDataURL_jpeg b (jpeg_canvas img)))
   \<and> (downloadFormat st = lit ''jpeg'' \<and> handleDownload b form st = Some l' \<longrightarrow>
      (\<exists>g' img'. generatedImage st = Some g' \<and> decode b g' = Some img'
           \<and> href l' = toDataURL_jpeg b (jpeg_canvas img')))
   \<and> canvas_width (jpeg_canvas img) = img_width img
   \<and> canvas_height (jpeg_canvas img) = img_height img
   \<and> (\<forall>x y. x < img_width img \<and> y < img_height img \<longrightarrow>
         alpha (canvas_pixel (jpeg_canvas img) x y) = 255
         \<and> (alpha (img_pixel img x y) = 0 \<longrightarrow> canvas_pixel (jpeg_canvas img) x y = white)
         \<and> (alpha (img_pixel img x y) = 255 \<longrightarrow>
              canvas_pixel (jpeg_canvas img) x y = img_pixel img x y))"
proof (intro conjI allI impI)
  assume "generatedImage st = Some g \<and> g \<noteq> [] \<and> downloadFormat st = lit ''png''"
  then show "\<exists>l. handleDownload b form st = Some l \<and> href l = g"
    by (simp add: handleDownload_def downloadWithFormat_def png_not_jpeg)
next
  assume "generatedImage st = Some g \<and> g \<noteq> [] \<and> downloadFormat st = lit ''jpeg''
        \<and> decode b g = Some img \<and> context2d b"
  then show "\<exists>l. handleDownload b form st = Some l
           \<and> href l = toDataURL_jpeg b (jpeg_canvas img)"
    by (simp add: handleDownload_def downloadWithFormat_def)
next
  assume "downloadFormat st = lit ''jpeg'' \<and> handleDownload b form st = Some l'"
  then show "\<exists>g' img'. generatedImage st = Some g' \<and> decode b g' = Some img'
           \<and> href l' = toDataURL_jpeg b (jpeg_canvas img')"
    by (auto simp add: handleDownload_def downloadWithFormat_def
        split: option.splits if_splits)
next
  show "canvas_width (jpeg_canvas img) = img_width img"
    by (simp add: jpeg_canvas_size)
  show "canvas_height (jpeg_canvas img) = img_height img"
    by (simp add: jpeg_canvas_size)
next
  fix x y
  assume xy: "x < img_width img \<and> y < img_height img"
  then show "alpha (canvas_pixel (jpeg_canvas img) x y) = 255"
    by (simp add: jpeg_canvas_pixel source_over_white_alpha)
  show "canvas_pixel (jpeg_canvas img) x y = white" if "alpha (img_pixel img x y) = 0"
    using xy that by (simp add: jpeg_canvas_pixel source_over_transparent_src)
  show "canvas_pixel (jpeg_canvas img) x y = img_pixel img x y"
    if "alpha (img_pixel img x y) = 255"
    using xy that by (simp add: jpeg_canvas_pixel source_over_opaque_src)
qed

theorem download_conversion_witness:
  "(\<exists>l. handleDownload example_browser example_raw example_state = Some l
        \<and> href l = lit ''data:image/png;base64,OLD'')
   \<and> (\<exists>l. handleDownload example_browser example_raw
              (example_state\<lparr>downloadFormat := lit ''jpeg''\<rparr>) = Some l
        \<and> href l = toDataURL_jpeg example_browser (jpeg_canvas example_image))
   \<and> canvas_pixel (jpeg_canvas example_image) 0 0 = white"
proof -
  have png: "generatedImage example_state = Some (lit ''data:image/png;base64,OLD'')
      \<and> lit ''data:image/png;base64,OLD'' \<noteq> [] \<and> downloadFormat example_state = lit ''png''"
    by (simp add: example_state_def lit_def)
  have jpeg: "generatedImage (example_state\<lparr>downloadFormat := lit ''jpeg''\<rparr>)
        = Some (lit ''data:image/png;base64,OLD'')
      \<and> lit ''data:image/png;base64,OLD'' \<noteq> []
      \<and> downloadFormat (example_state\<lparr>downloadFormat := lit ''jpeg''\<rparr>) = lit ''jpeg''
      \<and> decode example_browser (lit ''data:image/png;base64,OLD'') = Some example_image
      \<and> context2d example_browser"
    by (simp add: example_state_def example_browser_def example_decode_def lit_def)
  have pixel: "(0::nat) < img_width example_image \<and> (0::nat) < img_height example_image"
    "alpha (img_pixel example_image 0 0) = 0"
    by (simp_all add: example_image_def clear_pixel_def transparent_def)
  from png download_conversion [where st = example_state
      and g = "lit ''data:image/png;base64,OLD''" and b = example_browser
      and form = example_raw]
  have "\<exists>l. handleDownload example_browser example_raw example_state = Some l
        \<and> href l = lit ''data:image/png;base64,OLD''"
    by blast
  moreover from jpeg pixel
    download_conversion [where st = "example_state\<lparr>downloadFormat := lit ''jpeg''\<rparr>"
      and g = "lit ''data:image/png;base64,OLD''" and b = example_browser
      and form = example_raw and img = example_image]
  have "(\<exists>l. handleDownload example_browser example_raw
              (example_state\<lparr>downloadFormat := lit ''jpeg''\<rparr>) = Some l
        \<and> href l = toDataURL_jpeg example_browser (jpeg_canvas example_image))
      \<and> canvas_pixel (jpeg_canvas example_image) 0 0 = white"
    by blast
  ultimately show ?thesis by blast
qed

text \<open>
  C9, as the claim states it, fails when the form's business name is empty at the
  time of the download: the file is then named \<open>brandboost-asset.png\<close>, not
  \<open>-asset.png\<close>.
\<close>

theorem empty_name_download_counterexample:
  "raw_businessName empty_raw = Some []
   \<and> handleDownload example_browser empty_raw example_state
       = Some \<lparr> href = lit ''data:image/png;base64,OLD'',
                  download = lit ''brandboost-asset.png'' \<rparr>
   \<and> lit ''brandboost-asset.png'' \<noteq> [] @ lit ''-asset.'' @ lit ''png''"
  by (simp add: handleDownload_def downloadWithFormat_def name_or_brandboost_def
      empty_raw_def example_state_def lit_def)

text \<open>
  C9, amended. For every download, the file's name is the business name the form
  holds at that time, or \<open>brandboost\<close> when that name is missing or empty, followed
  by \<open>-asset.\<close> and the extension of the chosen format: \<open>jpeg\<close> for the format jpeg,
  \<open>png\<close> otherwise.
\<close>

theorem download_file_name:
  assumes "handleDownload b form st = Some l"
  shows "(\<forall>n. raw_businessName form = Some n \<and> n \<noteq> [] \<longrightarrow>
            download l = n @ lit ''-asset.''
              @ (if downloadFormat st = lit ''jpeg'' then lit ''jpeg'' else lit ''png''))
     \<and> (\<not> truthy (raw_businessName form) \<longrightarrow>
            download l = lit ''brandboost'' @ lit ''-asset.''
              @ (if downloadFormat st = lit ''jpeg'' then lit ''jpeg'' else lit ''png''))"
  using handleDownload_name [OF assms]
  by (auto simp add: name_or_brandboost_def truthy_def split: option.splits)

theorem download_file_name_witness:
  "download (downloadWithFormat example_raw (lit ''data:image/png;base64,OLD'') ''png'')
     = lit ''Acme'' @ lit ''-asset.'' @ lit ''png''"
proof -
  have h: "handleDownload example_browser example_raw example_state
             = Some (downloadWithFormat example_raw (lit ''data:image/png;base64,OLD'') ''png'')"
    by (simp add: handleDownload_def example_state_def lit_def)
  have n: "raw_businessName example_raw = Some (lit ''Acme'') \<and> lit ''Acme'' \<noteq> []"
    "downloadFormat example_state \<noteq> lit ''jpeg''"
    by (simp_all add: example_raw_def example_state_def lit_def)
  from download_file_name [OF h] n show ?thesis
    by auto
qed

end
